theory Spec2Isabelle
  imports Main
begin

section \<open>The demo HTTP server (src/index.js)\<close>

text \<open>
  The request handler passed to \<open>http.createServer\<close> reads \<open>req.url\<close> only, takes a
  timestamp from the clock, and writes a status line, one header and a body to \<open>res\<close>.
  What the handler reads from the process (clock, \<open>process.version\<close>,
  \<open>process.env.NODE_ENV\<close>) is collected in a record, and \<open>res\<close> is a record that
  \<open>writeHead\<close> and \<open>end\<close> update.

  A body is either the object handed to \<open>JSON.stringify\<close> (kept as its list of
  fields) or the text of the HTML page. Characters are bytes: the rocket of the page
  heading is its four UTF-8 bytes.
\<close>

record process_env =
  timestamp :: string
  version :: string
  NODE_ENV :: "string option"

record request =
  http_method :: string
  url :: string

datatype body = JSON "(string \<times> string) list" | Text string

record response =
  statusCode :: nat
  headers :: "(string \<times> string) list"
  sent :: "body option"

definition fresh_response :: response where
  "fresh_response = \<lparr>statusCode = 200, headers = [], sent = None\<rparr>"

definition writeHead :: "nat \<Rightarrow> (string \<times> string) list \<Rightarrow> response \<Rightarrow> response" where
  "writeHead code hs res = res\<lparr>statusCode := code, headers := hs\<rparr>"

definition end_response :: "body \<Rightarrow> response \<Rightarrow> response" where
  "end_response b res = res\<lparr>sent := Some b\<rparr>"

text \<open>\<open>process.env.NODE_ENV || 'development'\<close>: an unset or empty variable is falsy.\<close>

definition environment_name :: "process_env \<Rightarrow> string" where
  "environment_name env =
     (case NODE_ENV env of
        None \<Rightarrow> ''development''
      | Some v \<Rightarrow> if v = [] then ''development'' else v)"

definition join_lines :: "string list \<Rightarrow> string" where
  "join_lines ls = concat (map (\<lambda>l. [CHR 0x0A] @ l) ls)"

definition rocket :: string where
  "rocket = [CHR 0xF0, CHR 0x9F, CHR 0x9A, CHR 0x80]"

text \<open>
  The template literal of the page, line by line: it opens with a line break, and every
  line of the literal follows a line break.
\<close>

definition page_lines :: "process_env \<Rightarrow> string list" where
  \<open>page_lines env =
     [''      <!DOCTYPE html>'',
      ''      <html>'',
      ''        <head>'',
      ''          <title>DevOps Test App</title>'',
      ''          <style>'',
      ''            body { font-family: Arial, sans-serif; max-width: 800px; margin: 50px auto; padding: 20px; }'',
      ''            h1 { color: #0078d4; }'',
      ''            .info { background: #f0f0f0; padding: 15px; border-radius: 5px; }'',
      ''          </style>'',
      ''        </head>'',
      ''        <body>'',
      ''          <h1>'' @ rocket @ '' DevOps Test App</h1>'',
      ''          <p>Successfully deployed to Azure App Service!</p>'',
      ''          <div class="info">'',
      ''            <p><strong>Server Time:</strong> '' @ timestamp env @ ''</p>'',
      ''            <p><strong>Node Version:</strong> '' @ version env @ ''</p>'',
      ''            <p><strong>Environment:</strong> '' @ environment_name env @ ''</p>'',
      ''          </div>'',
      ''        </body>'',
      ''      </html>'',
      ''    '']\<close>

definition page :: "process_env \<Rightarrow> string" where
  "page env = join_lines (page_lines env)"

definition handler :: "process_env \<Rightarrow> request \<Rightarrow> response" where
  "handler env req =
     (if url req = ''/health'' then
        end_response (JSON [(''status'', ''healthy''), (''timestamp'', timestamp env)])
          (writeHead 200 [(''Content-Type'', ''application/json'')] fresh_response)
      else if url req = ''/'' then
        end_response (Text (page env))
          (writeHead 200 [(''Content-Type'', ''text/html'')] fresh_response)
      else
        end_response (JSON [(''error'', ''Not Found'')])
          (writeHead 404 [(''Content-Type'', ''application/json'')] fresh_response))"

text \<open>
  An HTML document, for what follows: a text that, leading and trailing blanks aside,
  starts with the document type declaration and ends with the closing \<open>html\<close> tag.
  An HTML response has the \<open>text/html\<close> content type and such a text as body.
\<close>

definition blank :: "char \<Rightarrow> bool" where
  "blank ch = (ch = CHR 0x0A \<or> ch = CHR '' '')"

fun begins :: "string \<Rightarrow> string \<Rightarrow> bool" where
  "begins [] s = True"
| "begins (p # ps) [] = False"
| "begins (p # ps) (ch # cs) = (if p = ch then begins ps cs else False)"

definition is_html_document :: "string \<Rightarrow> bool" where
  "is_html_document t =
     (begins ''<!DOCTYPE html>'' (dropWhile blank t)
      \<and> begins (rev ''</html>'') (dropWhile blank (rev t)))"

definition is_html :: "response \<Rightarrow> bool" where
  "is_html res =
     (map_of (headers res) ''Content-Type'' = Some ''text/html''
      \<and> (case sent res of Some (Text t) \<Rightarrow> is_html_document t | _ \<Rightarrow> False))"

definition json_field :: "response \<Rightarrow> string \<Rightarrow> string option" where
  "json_field res k = (case sent res of Some (JSON fs) \<Rightarrow> map_of fs k | _ \<Rightarrow> None)"


section \<open>The monitoring set-up script (monitoring-setup.ps1)\<close>

subsection \<open>Parameters and naming conventions\<close>

text \<open>
  The \<open>param\<close> block declares four string parameters. Three are mandatory and have no
  \<open>AllowEmptyString\<close>: binding refuses an empty string for any of them, before the body
  of the script runs. A mandatory parameter that is not given is asked for, so each arrives
  as a string. \<open>Location\<close> is optional and defaults to \<open>eastus\<close>. No parameter
  carries a validation attribute, so nothing else is checked.
\<close>

datatype binding_error = ParameterBindingValidationException

record params =
  ResourceGroupName :: string
  WebAppName :: string
  Location :: string
  AlertEmailAddress :: string

definition param ::
  "string \<Rightarrow> string \<Rightarrow> string option \<Rightarrow> string \<Rightarrow> binding_error + params" where
  "param rg app loc email =
     (if rg = [] \<or> app = [] \<or> email = [] then Inl ParameterBindingValidationException
      else Inr \<lparr>ResourceGroupName = rg, WebAppName = app,
                Location = (case loc of None \<Rightarrow> ''eastus'' | Some l \<Rightarrow> l),
                AlertEmailAddress = email\<rparr>)"

definition logAnalyticsName :: "string \<Rightarrow> string" where
  "logAnalyticsName app = ''log-'' @ app"

definition appInsightsName :: "string \<Rightarrow> string" where
  "appInsightsName app = ''appi-'' @ app"

definition actionGroupName :: "string \<Rightarrow> string" where
  "actionGroupName app = ''ag-'' @ app @ ''-alerts''"

text \<open>The three assignments under "Naming conventions", taken together.\<close>

definition deriveNames :: "string \<Rightarrow> string \<times> string \<times> string" where
  "deriveNames app = (logAnalyticsName app, appInsightsName app, actionGroupName app)"

subsection \<open>The commands sent to the Azure CLI\<close>

text \<open>
  Every \<open>az\<close> invocation of the script is a constructor, with the values of its flags in
  the order the script writes them. \<open>--output none\<close> and \<open>2>$null\<close> only silence the
  command and are left out. The two JSON literals given to \<open>diagnostic-settings create\<close>
  are kept as their lists of (category, enabled) entries.

  What a command prints is parsed by \<open>ConvertFrom-Json\<close>: no output gives \<open>$null\<close>
  (\<open>None\<close>); an object is the list of its properties. The script reads string
  properties only.
\<close>

type_synonym json_obj = "(string \<times> string) list"

record alert_rule =
  rule_name :: string
  resource_group :: string
  scopes :: string
  condition :: string
  window_size :: string
  evaluation_frequency :: string
  severity :: nat
  description :: string
  action :: string

datatype az_command =
    Account_Show
  | Webapp_Show string string
  | Workspace_Create string string string nat
  | Workspace_Show string string
  | App_Insights_Create string string string string string
  | App_Insights_Show string string
  | Appsettings_Set string string "(string \<times> string) list"
  | Action_Group_Create string string string "string list"
  | Action_Group_Show string string
  | Metrics_Alert_Create alert_rule
  | Diagnostic_Settings_Create string string string "(string \<times> bool) list" "(string \<times> bool) list"

text \<open>
  The cloud behind the CLI is a parameter of the model: a state of any type \<open>'c\<close> and a
  function \<open>api\<close> that, for a state and a command, gives what the command prints and the
  next state. The script never reads \<open>$LASTEXITCODE\<close>, so exit codes of \<open>az\<close> are
  not part of an answer.
\<close>

type_synonym 'c cloud_api = "'c \<Rightarrow> az_command \<Rightarrow> json_obj option \<times> 'c"

subsection \<open>Script state, errors and the primitives\<close>

text \<open>
  The state of a run: the cloud, the transcript of the commands issued with what each
  printed, and the console (each line with its \<open>-ForegroundColor\<close>, if any).
\<close>

record 'c world =
  cloud :: 'c
  transcript :: "(az_command \<times> json_obj option) list"
  console :: "(string \<times> string option) list"

text \<open>
  Two kinds of terminating error reach the \<open>catch\<close> block: a \<open>throw\<close> of the script
  with its message, and the error that \<open>Set-StrictMode -Version Latest\<close> raises when a
  property is read from \<open>$null\<close> or from an object that lacks it.
\<close>

datatype error = Thrown string | PropertyNotFoundStrict string

definition quote :: string where
  "quote = [CHR 0x27]"

fun Message :: "error \<Rightarrow> string" where
  "Message (Thrown m) = m"
| "Message (PropertyNotFoundStrict n) =
     ''The property '' @ quote @ n @ quote
       @ '' cannot be found on this object. Verify that the property exists.''"

type_synonym ('a, 'c) script = "'c world \<Rightarrow> (error + 'a) \<times> 'c world"

definition pure :: "'a \<Rightarrow> ('a, 'c) script" where
  "pure x = (\<lambda>w. (Inr x, w))"

definition throw :: "string \<Rightarrow> ('a, 'c) script" where
  "throw m = (\<lambda>w. (Inl (Thrown m), w))"

definition and_then :: "('a, 'c) script \<Rightarrow> ('a \<Rightarrow> ('b, 'c) script) \<Rightarrow> ('b, 'c) script" where
  "and_then m f = (\<lambda>w. case m w of (Inl e, w') \<Rightarrow> (Inl e, w') | (Inr x, w') \<Rightarrow> f x w')"

definition az :: "'c cloud_api \<Rightarrow> az_command \<Rightarrow> (json_obj option, 'c) script" where
  "az api cmd = (\<lambda>w.
     (Inr (fst (api (cloud w) cmd)),
      w\<lparr>cloud := snd (api (cloud w) cmd),
        transcript := transcript w @ [(cmd, fst (api (cloud w) cmd))]\<rparr>))"

text \<open>\<open>$obj.name\<close> under strict mode.\<close>

definition property :: "json_obj option \<Rightarrow> string \<Rightarrow> (string, 'c) script" where
  "property obj n = (\<lambda>w.
     case obj of
       None \<Rightarrow> (Inl (PropertyNotFoundStrict n), w)
     | Some props \<Rightarrow>
         (case map_of props n of
            None \<Rightarrow> (Inl (PropertyNotFoundStrict n), w)
          | Some v \<Rightarrow> (Inr v, w)))"

definition Write_Host :: "string \<Rightarrow> string option \<Rightarrow> (unit, 'c) script" where
  "Write_Host line colour = (\<lambda>w. (Inr (), w\<lparr>console := console w @ [(line, colour)]\<rparr>))"

text \<open>The marks of \<open>Write-Status\<close> are single characters beyond ASCII, given as UTF-8.\<close>

definition check_mark :: string where
  "check_mark = [CHR 0xE2, CHR 0x9C, CHR 0x93]"

definition warning_sign :: string where
  "warning_sign = [CHR 0xE2, CHR 0x9A, CHR 0xA0]"

definition ballot_x :: string where
  "ballot_x = [CHR 0xE2, CHR 0x9C, CHR 0x97]"

definition arrow :: string where
  "arrow = [CHR 0xE2, CHR 0x86, CHR 0x92]"

definition bullet :: string where
  "bullet = [CHR 0xE2, CHR 0x80, CHR 0xA2]"

definition Write_Status :: "string \<Rightarrow> string \<Rightarrow> (unit, 'c) script" where
  "Write_Status msg type =
     (if type = ''Success'' then Write_Host (check_mark @ '' '' @ msg) (Some ''Green'')
      else if type = ''Warning'' then Write_Host (warning_sign @ '' '' @ msg) (Some ''Yellow'')
      else if type = ''Error'' then Write_Host (ballot_x @ '' '' @ msg) (Some ''Red'')
      else Write_Host (arrow @ '' '' @ msg) (Some ''Cyan''))"

text \<open>The state that \<open>Write-Status\<close> leaves: only the console has grown.\<close>

definition after_status :: "string \<Rightarrow> string \<Rightarrow> 'c world \<Rightarrow> 'c world" where
  "after_status msg type w = snd (Write_Status msg type w)"

subsection \<open>The body of the \<open>try\<close> block, section by section\<close>

text \<open>The commands of the script, each with the arguments the script gives it.\<close>

definition webapp_show :: "params \<Rightarrow> az_command" where
  "webapp_show p = Webapp_Show (WebAppName p) (ResourceGroupName p)"

definition workspace_create :: "params \<Rightarrow> az_command" where
  "workspace_create p =
     Workspace_Create (ResourceGroupName p) (logAnalyticsName (WebAppName p)) (Location p) 30"

definition workspace_show :: "params \<Rightarrow> az_command" where
  "workspace_show p = Workspace_Show (ResourceGroupName p) (logAnalyticsName (WebAppName p))"

definition app_insights_create :: "params \<Rightarrow> string \<Rightarrow> az_command" where
  "app_insights_create p workspace =
     App_Insights_Create (appInsightsName (WebAppName p)) (Location p) (ResourceGroupName p)
       workspace ''web''"

definition app_insights_show :: "params \<Rightarrow> az_command" where
  "app_insights_show p = App_Insights_Show (appInsightsName (WebAppName p)) (ResourceGroupName p)"

definition appsettings_set :: "params \<Rightarrow> string \<Rightarrow> az_command" where
  "appsettings_set p connectionString =
     Appsettings_Set (WebAppName p) (ResourceGroupName p)
       [(''APPLICATIONINSIGHTS_CONNECTION_STRING'', connectionString),
        (''ApplicationInsightsAgent_EXTENSION_VERSION'', ''~3''),
        (''XDT_MicrosoftApplicationInsights_Mode'', ''Recommended'')]"

definition action_group_create :: "params \<Rightarrow> az_command" where
  "action_group_create p =
     Action_Group_Create (ResourceGroupName p) (actionGroupName (WebAppName p)) ''AppAlerts''
       [''email'', ''AdminEmail'', AlertEmailAddress p]"

definition action_group_show :: "params \<Rightarrow> az_command" where
  "action_group_show p =
     Action_Group_Show (ResourceGroupName p) (actionGroupName (WebAppName p))"

definition cpu_rule :: "params \<Rightarrow> string \<Rightarrow> string \<Rightarrow> alert_rule" where
  "cpu_rule p scope ag =
     \<lparr>rule_name = ''alert-cpu-high-'' @ WebAppName p,
      resource_group = ResourceGroupName p,
      scopes = scope,
      condition = ''avg CpuPercentage > 80'',
      window_size = ''5m'',
      evaluation_frequency = ''1m'',
      severity = 2,
      description = ''Alert when CPU exceeds 80% for 5 minutes'',
      action = ag\<rparr>"

definition memory_rule :: "params \<Rightarrow> string \<Rightarrow> string \<Rightarrow> alert_rule" where
  "memory_rule p scope ag =
     \<lparr>rule_name = ''alert-memory-high-'' @ WebAppName p,
      resource_group = ResourceGroupName p,
      scopes = scope,
      condition = ''avg MemoryPercentage > 85'',
      window_size = ''5m'',
      evaluation_frequency = ''1m'',
      severity = 2,
      description = ''Alert when memory exceeds 85% for 5 minutes'',
      action = ag\<rparr>"

definition http5xx_rule :: "params \<Rightarrow> string \<Rightarrow> string \<Rightarrow> alert_rule" where
  "http5xx_rule p scope ag =
     \<lparr>rule_name = ''alert-http5xx-'' @ WebAppName p,
      resource_group = ResourceGroupName p,
      scopes = scope,
      condition = ''total Http5xx > 10'',
      window_size = ''5m'',
      evaluation_frequency = ''1m'',
      severity = 1,
      description = ''Alert when HTTP 5xx errors exceed 10 in 5 minutes'',
      action = ag\<rparr>"

definition response_time_rule :: "params \<Rightarrow> string \<Rightarrow> string \<Rightarrow> alert_rule" where
  "response_time_rule p scope ag =
     \<lparr>rule_name = ''alert-response-time-'' @ WebAppName p,
      resource_group = ResourceGroupName p,
      scopes = scope,
      condition = ''avg HttpResponseTime > 5'',
      window_size = ''5m'',
      evaluation_frequency = ''1m'',
      severity = 3,
      description = ''Alert when average response time exceeds 5 seconds'',
      action = ag\<rparr>"

definition logsConfig :: "(string \<times> bool) list" where
  "logsConfig =
     [(''AppServiceHTTPLogs'', True), (''AppServiceConsoleLogs'', True), (''AppServiceAppLogs'', True)]"

definition metricsConfig :: "(string \<times> bool) list" where
  "metricsConfig = [(''AllMetrics'', True)]"

definition diagnostic_settings_create :: "params \<Rightarrow> string \<Rightarrow> string \<Rightarrow> az_command" where
  "diagnostic_settings_create p webAppResourceId workspace =
     Diagnostic_Settings_Create (''diag-'' @ WebAppName p) webAppResourceId workspace
       logsConfig metricsConfig"

text \<open>
  Arguments of a command are evaluated before the command runs, so a strict-mode error in
  an argument leaves the command unissued. \<open>-not $x\<close> holds exactly when \<open>$x\<close> is
  \<open>$null\<close>, the only falsy value a command's parsed output takes here.
\<close>

definition verify_preconditions ::
  "'c cloud_api \<Rightarrow> params \<Rightarrow> (json_obj option \<times> string, 'c) script" where
  "verify_preconditions api p =
     and_then (Write_Status (''Starting Azure Monitor setup for '' @ WebAppName p @ ''...'') ''Info'') (\<lambda>_.
     and_then (Write_Status ''Verifying Azure CLI authentication...'' ''Info'') (\<lambda>_.
     and_then (az api Account_Show) (\<lambda>account.
     and_then (if account = None
               then throw (''Not logged into Azure CLI. Please run '' @ quote @ ''az login''
                             @ quote @ '' first.'')
               else pure ()) (\<lambda>_.
     and_then (property account ''name'') (\<lambda>subscription.
     and_then (Write_Status (''Using subscription: '' @ subscription) ''Success'') (\<lambda>_.
     and_then (Write_Status ''Verifying Web App exists...'' ''Info'') (\<lambda>_.
     and_then (az api (webapp_show p)) (\<lambda>webApp.
     and_then (if webApp = None
               then throw (''Web App '' @ quote @ WebAppName p @ quote
                             @ '' not found in resource group '' @ quote
                             @ ResourceGroupName p @ quote @ ''.'')
               else pure ()) (\<lambda>_.
     and_then (property webApp ''id'') (\<lambda>webAppResourceId.
     and_then (Write_Status (''Found Web App: '' @ WebAppName p) ''Success'') (\<lambda>_.
     pure (webApp, webAppResourceId))))))))))))"

definition create_workspace :: "'c cloud_api \<Rightarrow> params \<Rightarrow> (json_obj option, 'c) script" where
  "create_workspace api p =
     and_then (Write_Status (''Creating Log Analytics Workspace: ''
                 @ logAnalyticsName (WebAppName p) @ ''...'') ''Info'') (\<lambda>_.
     and_then (az api (workspace_create p)) (\<lambda>_.
     and_then (az api (workspace_show p)) (\<lambda>logAnalytics.
     and_then (Write_Status ''Log Analytics Workspace created'' ''Success'') (\<lambda>_.
     pure logAnalytics))))"

definition create_app_insights ::
  "'c cloud_api \<Rightarrow> params \<Rightarrow> json_obj option \<Rightarrow> (json_obj option, 'c) script" where
  "create_app_insights api p logAnalytics =
     and_then (Write_Status (''Creating Application Insights: ''
                 @ appInsightsName (WebAppName p) @ ''...'') ''Info'') (\<lambda>_.
     and_then (property logAnalytics ''id'') (\<lambda>workspace.
     and_then (az api (app_insights_create p workspace)) (\<lambda>_.
     and_then (az api (app_insights_show p)) (\<lambda>appInsights.
     and_then (Write_Status ''Application Insights created'' ''Success'') (\<lambda>_.
     pure appInsights)))))"

definition configure_app_service ::
  "'c cloud_api \<Rightarrow> params \<Rightarrow> json_obj option \<Rightarrow> (unit, 'c) script" where
  "configure_app_service api p appInsights =
     and_then (Write_Status ''Configuring App Service with Application Insights...'' ''Info'') (\<lambda>_.
     and_then (property appInsights ''connectionString'') (\<lambda>connectionString.
     and_then (az api (appsettings_set p connectionString)) (\<lambda>_.
     Write_Status ''App Service configured with Application Insights'' ''Success'')))"

definition create_action_group :: "'c cloud_api \<Rightarrow> params \<Rightarrow> (json_obj option, 'c) script" where
  "create_action_group api p =
     and_then (Write_Status (''Creating Action Group: ''
                 @ actionGroupName (WebAppName p) @ ''...'') ''Info'') (\<lambda>_.
     and_then (az api (action_group_create p)) (\<lambda>_.
     and_then (az api (action_group_show p)) (\<lambda>actionGroup.
     and_then (if actionGroup = None then throw ''Failed to create Action Group'' else pure ()) (\<lambda>_.
     and_then (Write_Status ''Action Group created'' ''Success'') (\<lambda>_.
     pure actionGroup)))))"

text \<open>
  \<open>$appServicePlanId\<close> is read from \<open>$webApp\<close> once; \<open>$actionGroup.id\<close> is read anew
  in the arguments of each of the four commands.
\<close>

definition create_alert_rules ::
  "'c cloud_api \<Rightarrow> params \<Rightarrow> json_obj option \<Rightarrow> string \<Rightarrow> json_obj option \<Rightarrow> (unit, 'c) script" where
  "create_alert_rules api p webApp webAppResourceId actionGroup =
     and_then (Write_Status ''Getting App Service Plan...'' ''Info'') (\<lambda>_.
     and_then (property webApp ''appServicePlanId'') (\<lambda>appServicePlanId.
     and_then (Write_Status ''Found App Service Plan'' ''Success'') (\<lambda>_.
     and_then (Write_Status ''Creating CPU percentage alert rule...'' ''Info'') (\<lambda>_.
     and_then (property actionGroup ''id'') (\<lambda>ag.
     and_then (az api (Metrics_Alert_Create (cpu_rule p appServicePlanId ag))) (\<lambda>_.
     and_then (Write_Status ''CPU alert rule created (threshold: 80%)'' ''Success'') (\<lambda>_.
     and_then (Write_Status ''Creating memory percentage alert rule...'' ''Info'') (\<lambda>_.
     and_then (property actionGroup ''id'') (\<lambda>ag.
     and_then (az api (Metrics_Alert_Create (memory_rule p appServicePlanId ag))) (\<lambda>_.
     and_then (Write_Status ''Memory alert rule created (threshold: 85%)'' ''Success'') (\<lambda>_.
     and_then (Write_Status ''Creating HTTP 5xx error alert rule...'' ''Info'') (\<lambda>_.
     and_then (property actionGroup ''id'') (\<lambda>ag.
     and_then (az api (Metrics_Alert_Create (http5xx_rule p webAppResourceId ag))) (\<lambda>_.
     and_then (Write_Status ''HTTP 5xx alert rule created (threshold: 10 errors)'' ''Success'') (\<lambda>_.
     and_then (Write_Status ''Creating response time alert rule...'' ''Info'') (\<lambda>_.
     and_then (property actionGroup ''id'') (\<lambda>ag.
     and_then (az api (Metrics_Alert_Create (response_time_rule p webAppResourceId ag))) (\<lambda>_.
     Write_Status ''Response time alert rule created (threshold: 5s)'' ''Success''))))))))))))))))))"

definition enable_diagnostics ::
  "'c cloud_api \<Rightarrow> params \<Rightarrow> string \<Rightarrow> json_obj option \<Rightarrow> (unit, 'c) script" where
  "enable_diagnostics api p webAppResourceId logAnalytics =
     and_then (Write_Status ''Enabling diagnostic settings...'' ''Info'') (\<lambda>_.
     and_then (property logAnalytics ''id'') (\<lambda>workspace.
     and_then (az api (diagnostic_settings_create p webAppResourceId workspace)) (\<lambda>_.
     Write_Status ''Diagnostic settings enabled'' ''Success'')))"

definition banner :: string where
  "banner = ''============================================''"

fun Write_Lines :: "(string \<times> string option) list \<Rightarrow> (unit, 'c) script" where
  "Write_Lines [] = pure ()"
| "Write_Lines ((l, c) # ls) = and_then (Write_Host l c) (\<lambda>_. Write_Lines ls)"

definition summary :: "params \<Rightarrow> string \<Rightarrow> (unit, 'c) script" where
  "summary p webAppResourceId = Write_Lines
     [([], None),
      (banner, Some ''Green''),
      (''Monitoring Setup Complete!'', Some ''Green''),
      (banner, Some ''Green''),
      ([], None),
      (''Resources Created:'', None),
      (''  '' @ bullet @ '' Log Analytics Workspace: '' @ logAnalyticsName (WebAppName p), None),
      (''  '' @ bullet @ '' Application Insights: '' @ appInsightsName (WebAppName p), None),
      (''  '' @ bullet @ '' Action Group: '' @ actionGroupName (WebAppName p), None),
      ([], None),
      (''Alert Rules Created:'', None),
      (''  '' @ bullet @ '' CPU > 80% (Severity 2)'', None),
      (''  '' @ bullet @ '' Memory > 85% (Severity 2)'', None),
      (''  '' @ bullet @ '' HTTP 5xx > 10 errors (Severity 1)'', None),
      (''  '' @ bullet @ '' Response Time > 5s (Severity 3)'', None),
      ([], None),
      (''Alerts will be sent to: '' @ AlertEmailAddress p, None),
      ([], None),
      (''View in Azure Portal:'', None),
      (''  https://portal.azure.com/#@/resource'' @ webAppResourceId @ ''/monitoring'', None),
      (banner, Some ''Green'')]"

definition try_block :: "'c cloud_api \<Rightarrow> params \<Rightarrow> (unit, 'c) script" where
  "try_block api p =
     and_then (verify_preconditions api p) (\<lambda>(webApp, webAppResourceId).
     and_then (create_workspace api p) (\<lambda>logAnalytics.
     and_then (create_app_insights api p logAnalytics) (\<lambda>appInsights.
     and_then (configure_app_service api p appInsights) (\<lambda>_.
     and_then (create_action_group api p) (\<lambda>actionGroup.
     and_then (create_alert_rules api p webApp webAppResourceId actionGroup) (\<lambda>_.
     and_then (enable_diagnostics api p webAppResourceId logAnalytics) (\<lambda>_.
     summary p webAppResourceId)))))))"

subsection \<open>The script: \<open>try\<close>, \<open>catch\<close> and the exit code\<close>

text \<open>
  A run starts with an empty transcript and console. When the \<open>try\<close> block ends
  normally the process exits with code 0; the \<open>catch\<close> block prints the message of the
  error and exits with code 1. The exit code and the console are all that a run returns.
\<close>

record 'c outcome =
  exit_code :: nat
  final :: "'c world"

definition monitoring_setup :: "'c cloud_api \<Rightarrow> params \<Rightarrow> 'c \<Rightarrow> 'c outcome" where
  "monitoring_setup api p c =
     (case try_block api p \<lparr>cloud = c, transcript = [], console = []\<rparr> of
        (Inr _, w) \<Rightarrow> \<lparr>exit_code = 0, final = w\<rparr>
      | (Inl e, w) \<Rightarrow>
          \<lparr>exit_code = 1, final = snd (Write_Status (''Error: '' @ Message e) ''Error'' w)\<rparr>)"

definition calls :: "'c outcome \<Rightarrow> az_command list" where
  "calls r = map fst (transcript (final r))"

text \<open>
  An invocation binds the parameters first. When binding fails the body does not run: there
  is no run, and no command has been issued.
\<close>

definition invoke ::
  "'c cloud_api \<Rightarrow> string \<Rightarrow> string \<Rightarrow> string option \<Rightarrow> string \<Rightarrow> 'c
     \<Rightarrow> binding_error + 'c outcome" where
  "invoke api rg app loc email c =
     (case param rg app loc email of
        Inl e \<Rightarrow> Inl e
      | Inr p \<Rightarrow> Inr (monitoring_setup api p c))"

subsection \<open>Reading a run\<close>

text \<open>The alert rules among a list of commands, in the order they were issued.\<close>

fun alert_rules :: "az_command list \<Rightarrow> alert_rule list" where
  "alert_rules [] = []"
| "alert_rules (Metrics_Alert_Create r # cs) = r # alert_rules cs"
| "alert_rules (_ # cs) = alert_rules cs"

fun is_diagnostic_settings :: "az_command \<Rightarrow> bool" where
  "is_diagnostic_settings (Diagnostic_Settings_Create _ _ _ _ _) = True"
| "is_diagnostic_settings _ = False"

text \<open>
  \<open>--window-size\<close> and \<open>--evaluation-frequency\<close> are given as a number of minutes
  followed by \<open>m\<close>. Anything else is not read as a duration here.
\<close>

definition digit :: "char \<Rightarrow> nat option" where
  "digit ch =
     (if (48::nat) \<le> of_char ch \<and> of_char ch \<le> (57::nat) then Some (of_char ch - 48) else None)"

fun number :: "nat \<Rightarrow> string \<Rightarrow> nat option" where
  "number acc [] = Some acc"
| "number acc (ch # cs) =
     (case digit ch of None \<Rightarrow> None | Some d \<Rightarrow> number (10 * acc + d) cs)"

definition duration_minutes :: "string \<Rightarrow> nat option" where
  "duration_minutes s =
     (if length s < 2 \<or> last s \<noteq> CHR ''m'' then None else number 0 (butlast s))"




definition error_line :: "string \<Rightarrow> string \<times> string option" where
  "error_line m = (ballot_x @ '' Error: '' @ m, Some ''Red'')"


subsection \<open>A small cloud to run the script against\<close>

text \<open>
  A stand-in for the provider, used to run the script on concrete inputs: a sign-in flag,
  a switch for the action-group service, and the resources by kind, resource group and
  name. Creating a resource under a name that exists replaces it in place; commands other
  than \<open>show\<close> print nothing (\<open>--output none\<close>).
\<close>

datatype kind = Site | Workspace | Component | App_Settings | Action_Group | Alert | Diagnostic

record demo_cloud =
  signed_in :: bool
  action_groups :: bool
  resources :: "((kind \<times> string \<times> string) \<times> json_obj) list"

fun put :: "'k \<Rightarrow> 'v \<Rightarrow> ('k \<times> 'v) list \<Rightarrow> ('k \<times> 'v) list" where
  "put k v [] = [(k, v)]"
| "put k v ((k', v') # kvs) = (if k = k' then (k, v) # kvs else (k', v') # put k v kvs)"

definition store :: "kind \<times> string \<times> string \<Rightarrow> json_obj \<Rightarrow> demo_cloud \<Rightarrow> demo_cloud" where
  "store k v s = s\<lparr>resources := put k v (resources s)\<rparr>"

fun demo_api :: "demo_cloud cloud_api" where
  "demo_api s Account_Show =
     (if signed_in s then Some [(''name'', ''Demo Subscription'')] else None, s)"
| "demo_api s (Webapp_Show n rg) = (map_of (resources s) (Site, rg, n), s)"
| "demo_api s (Workspace_Create rg n loc days) =
     (None, store (Workspace, rg, n) [(''id'', ''/workspaces/'' @ n), (''location'', loc)] s)"
| "demo_api s (Workspace_Show rg n) = (map_of (resources s) (Workspace, rg, n), s)"
| "demo_api s (App_Insights_Create app loc rg ws type) =
     (None, store (Component, rg, app)
        [(''id'', ''/components/'' @ app), (''connectionString'', ''InstrumentationKey='' @ app),
         (''workspace'', ws)] s)"
| "demo_api s (App_Insights_Show app rg) = (map_of (resources s) (Component, rg, app), s)"
| "demo_api s (Appsettings_Set n rg settings) = (None, store (App_Settings, rg, n) settings s)"
| "demo_api s (Action_Group_Create rg n short act) =
     (None, if action_groups s
            then store (Action_Group, rg, n) [(''id'', ''/actionGroups/'' @ n), (''receiver'', last act)] s
            else s)"
| "demo_api s (Action_Group_Show rg n) = (map_of (resources s) (Action_Group, rg, n), s)"
| "demo_api s (Metrics_Alert_Create r) =
     (None, store (Alert, resource_group r, rule_name r)
        [(''id'', ''/alerts/'' @ rule_name r), (''scopes'', scopes r), (''condition'', condition r),
         (''action'', action r)] s)"
| "demo_api s (Diagnostic_Settings_Create n res ws logs metrics) =
     (None, store (Diagnostic, res, n) [(''workspace'', ws)] s)"

definition fresh :: demo_cloud where
  "fresh =
     \<lparr>signed_in = True, action_groups = True,
      resources = [((Site, ''rg-x'', ''app-y''),
                    [(''id'', ''/sites/app-y''), (''appServicePlanId'', ''/plans/asp-x'')])]\<rparr>"

text \<open>
  The parameters of the specification's end-to-end scenario, as bound from \<open>rg-x\<close>,
  \<open>app-y\<close>, no location and \<open>a@b.com\<close>.
\<close>

definition request_xy :: params where
  "request_xy =
     \<lparr>ResourceGroupName = ''rg-x'', WebAppName = ''app-y'', Location = ''eastus'',
      AlertEmailAddress = ''a@b.com''\<rparr>"




subsection \<open>What a command creates\<close>



section \<open>Running the script symbolically\<close>

text \<open>
  Rewrite rules that push a run through one statement at a time, then the shape of every
  run: which commands were issued with which answers, and how the run ended.
\<close>

lemma and_then_pure: "and_then (pure x) f = f x"
  by (simp add: and_then_def pure_def)

lemma and_then_throw: "and_then (throw m) f w = (Inl (Thrown m), w)"
  by (simp add: and_then_def throw_def)

lemma pure_apply: "pure x w = (Inr x, w)"
  by (simp add: pure_def)

lemma Write_Status_apply: "Write_Status m t w = (Inr (), after_status m t w)"
  by (simp add: Write_Status_def Write_Host_def after_status_def)

lemma and_then_Write_Status:
  "and_then (Write_Status m t) f w = f () (after_status m t w)"
  by (simp add: and_then_def Write_Status_def Write_Host_def after_status_def)

lemma Write_Status_keeps [simp]:
  "cloud (after_status m t w) = cloud w"
  "transcript (after_status m t w) = transcript w"
  by (simp_all add: Write_Status_def Write_Host_def after_status_def)

lemma and_then_az:
  "and_then (az api cmd) f w =
     f (fst (api (cloud w) cmd))
       (w\<lparr>cloud := snd (api (cloud w) cmd),
          transcript := transcript w @ [(cmd, fst (api (cloud w) cmd))]\<rparr>)"
  by (simp add: and_then_def az_def)

lemma and_then_property:
  "and_then (property obj n) f w =
     (case obj of None \<Rightarrow> (Inl (PropertyNotFoundStrict n), w)
      | Some props \<Rightarrow> (case map_of props n of None \<Rightarrow> (Inl (PropertyNotFoundStrict n), w)
          | Some v \<Rightarrow> f v w))"
  by (simp add: and_then_def property_def split: option.splits)

lemma and_then_assoc: "and_then (and_then m f) g = and_then m (\<lambda>x. and_then (f x) g)"
  by (auto simp: and_then_def fun_eq_iff split: prod.splits sum.splits)

lemmas run_simps = and_then_pure and_then_throw pure_apply Write_Status_apply
  and_then_Write_Status and_then_az and_then_property

lemma Write_Lines_apply: "Write_Lines ls w = (Inr (), w\<lparr>console := console w @ ls\<rparr>)"
proof (induction ls arbitrary: w)
  case Nil
  show ?case by (simp add: pure_def)
next
  case (Cons a ls)
  obtain l k where a: "a = (l, k)" by (cases a)
  show ?case unfolding a by (simp add: and_then_def Write_Host_def Cons)
qed

lemma try_block_spec:
  "case try_block api p w of
     (Inr u, w') \<Rightarrow>
       (\<exists>account app la ai g wid plan ws cs agid o1 o2 o3 o4 o5 o6 o7 o8 o9 subscription.
          map_of account ''name'' = Some subscription
          \<and> map_of app ''id'' = Some wid \<and> map_of app ''appServicePlanId'' = Some plan
          \<and> map_of la ''id'' = Some ws \<and> map_of ai ''connectionString'' = Some cs
          \<and> map_of g ''id'' = Some agid
          \<and> transcript w' = transcript w @
              [(Account_Show, Some account), (webapp_show p, Some app),
               (workspace_create p, o1), (workspace_show p, Some la),
               (app_insights_create p ws, o2), (app_insights_show p, Some ai),
               (appsettings_set p cs, o3),
               (action_group_create p, o4), (action_group_show p, Some g),
               (Metrics_Alert_Create (cpu_rule p plan agid), o5),
               (Metrics_Alert_Create (memory_rule p plan agid), o6),
               (Metrics_Alert_Create (http5xx_rule p wid agid), o7),
               (Metrics_Alert_Create (response_time_rule p wid agid), o8),
               (diagnostic_settings_create p wid ws, o9)])
   | (Inl e, w') \<Rightarrow>
       (transcript w' = transcript w @ [(Account_Show, None)]
          \<and> e = Thrown (''Not logged into Azure CLI. Please run '' @ quote @ ''az login''
                             @ quote @ '' first.''))
       \<or> (\<exists>account. transcript w' = transcript w @ [(Account_Show, Some account)]
          \<and> e = PropertyNotFoundStrict ''name'')
       \<or> (\<exists>account. transcript w' = transcript w @
              [(Account_Show, Some account), (webapp_show p, None)]
          \<and> e = Thrown (''Web App '' @ quote @ WebAppName p @ quote
                             @ '' not found in resource group '' @ quote
                             @ ResourceGroupName p @ quote @ ''.''))
       \<or> (\<exists>account app. transcript w' = transcript w @
              [(Account_Show, Some account), (webapp_show p, Some app)]
          \<and> e = PropertyNotFoundStrict ''id'')
       \<or> (\<exists>account app o1 la. transcript w' = transcript w @
              [(Account_Show, Some account), (webapp_show p, Some app),
               (workspace_create p, o1), (workspace_show p, la)]
          \<and> e = PropertyNotFoundStrict ''id'')
       \<or> (\<exists>account app o1 la ws o2 ai. transcript w' = transcript w @
              [(Account_Show, Some account), (webapp_show p, Some app),
               (workspace_create p, o1), (workspace_show p, Some la),
               (app_insights_create p ws, o2), (app_insights_show p, ai)]
          \<and> map_of la ''id'' = Some ws
          \<and> e = PropertyNotFoundStrict ''connectionString'')
       \<or> (\<exists>account app o1 la ws o2 ai cs o3 o4. transcript w' = transcript w @
              [(Account_Show, Some account), (webapp_show p, Some app),
               (workspace_create p, o1), (workspace_show p, Some la),
               (app_insights_create p ws, o2), (app_insights_show p, Some ai),
               (appsettings_set p cs, o3),
               (action_group_create p, o4), (action_group_show p, None)]
          \<and> map_of la ''id'' = Some ws \<and> map_of ai ''connectionString'' = Some cs
          \<and> e = Thrown ''Failed to create Action Group'')
       \<or> (\<exists>account app o1 la ws o2 ai cs o3 o4 g. transcript w' = transcript w @
              [(Account_Show, Some account), (webapp_show p, Some app),
               (workspace_create p, o1), (workspace_show p, Some la),
               (app_insights_create p ws, o2), (app_insights_show p, Some ai),
               (appsettings_set p cs, o3),
               (action_group_create p, o4), (action_group_show p, Some g)]
          \<and> map_of la ''id'' = Some ws \<and> map_of ai ''connectionString'' = Some cs
          \<and> (e = PropertyNotFoundStrict ''appServicePlanId'' \<or> e = PropertyNotFoundStrict ''id''))"
  unfolding try_block_def verify_preconditions_def create_workspace_def
    create_app_insights_def configure_app_service_def create_action_group_def
    create_alert_rules_def enable_diagnostics_def
  apply (simp add: run_simps and_then_assoc summary_def Write_Lines_apply del: Write_Lines.simps split: option.splits)
  apply (intro conjI allI impI)
  apply (blast | simp)+
  done


lemma after_status_console:
  "console (after_status m ''Error'' w) = console w @ [(ballot_x @ '' '' @ m, Some ''Red'')]"
  by (simp add: after_status_def Write_Status_def Write_Host_def)


lemma run_complete:
  assumes "exit_code (monitoring_setup api p c) = 0"
  shows "\<exists>account app la ai g wid plan ws cs agid o1 o2 o3 o4 o5 o6 o7 o8 o9 subscription.
          map_of account ''name'' = Some subscription
          \<and> map_of app ''id'' = Some wid \<and> map_of app ''appServicePlanId'' = Some plan
          \<and> map_of la ''id'' = Some ws \<and> map_of ai ''connectionString'' = Some cs
          \<and> map_of g ''id'' = Some agid
          \<and> transcript (final (monitoring_setup api p c)) =
              [(Account_Show, Some account), (webapp_show p, Some app),
               (workspace_create p, o1), (workspace_show p, Some la),
               (app_insights_create p ws, o2), (app_insights_show p, Some ai),
               (appsettings_set p cs, o3),
               (action_group_create p, o4), (action_group_show p, Some g),
               (Metrics_Alert_Create (cpu_rule p plan agid), o5),
               (Metrics_Alert_Create (memory_rule p plan agid), o6),
               (Metrics_Alert_Create (http5xx_rule p wid agid), o7),
               (Metrics_Alert_Create (response_time_rule p wid agid), o8),
               (diagnostic_settings_create p wid ws, o9)]"
proof -
  let ?w = "\<lparr>cloud = c, transcript = [], console = []\<rparr>"
  obtain res w' where run: "try_block api p ?w = (res, w')"
    by (cases "try_block api p ?w")
  from assms run obtain u where res: "res = Inr u"
    by (cases res) (simp_all add: monitoring_setup_def)
  from run res have fin: "final (monitoring_setup api p c) = w'"
    by (simp add: monitoring_setup_def)
  from try_block_spec [where api = api and p = p and w = "?w"] run res show ?thesis
    unfolding fin by simp
qed

lemma run_failed:
  assumes "exit_code (monitoring_setup api p c) \<noteq> 0"
  shows "\<exists>e. last (console (final (monitoring_setup api p c))) = error_line (Message e)
    \<and> ((transcript (final (monitoring_setup api p c)) = [(Account_Show, None)]
          \<and> e = Thrown (''Not logged into Azure CLI. Please run '' @ quote @ ''az login''
                             @ quote @ '' first.''))
       \<or> (\<exists>account. transcript (final (monitoring_setup api p c)) = [(Account_Show, Some account)]
          \<and> e = PropertyNotFoundStrict ''name'')
       \<or> (\<exists>account. transcript (final (monitoring_setup api p c)) =
              [(Account_Show, Some account), (webapp_show p, None)]
          \<and> e = Thrown (''Web App '' @ quote @ WebAppName p @ quote
                             @ '' not found in resource group '' @ quote
                             @ ResourceGroupName p @ quote @ ''.''))
       \<or> (\<exists>account app. transcript (final (monitoring_setup api p c)) =
              [(Account_Show, Some account), (webapp_show p, Some app)]
          \<and> e = PropertyNotFoundStrict ''id'')
       \<or> (\<exists>account app o1 la. transcript (final (monitoring_setup api p c)) =
              [(Account_Show, Some account), (webapp_show p, Some app),
               (workspace_create p, o1), (workspace_show p, la)]
          \<and> e = PropertyNotFoundStrict ''id'')
       \<or> (\<exists>account app o1 la ws o2 ai. transcript (final (monitoring_setup api p c)) =
              [(Account_Show, Some account), (webapp_show p, Some app),
               (workspace_create p, o1), (workspace_show p, Some la),
               (app_insights_create p ws, o2), (app_insights_show p, ai)]
          \<and> map_of la ''id'' = Some ws
          \<and> e = PropertyNotFoundStrict ''connectionString'')
       \<or> (\<exists>account app o1 la ws o2 ai cs o3 o4. transcript (final (monitoring_setup api p c)) =
              [(Account_Show, Some account), (webapp_show p, Some app),
               (workspace_create p, o1), (workspace_show p, Some la),
               (app_insights_create p ws, o2), (app_insights_show p, Some ai),
               (appsettings_set p cs, o3),
               (action_group_create p, o4), (action_group_show p, None)]
          \<and> map_of la ''id'' = Some ws \<and> map_of ai ''connectionString'' = Some cs
          \<and> e = Thrown ''Failed to create Action Group'')
       \<or> (\<exists>account app o1 la ws o2 ai cs o3 o4 g. transcript (final (monitoring_setup api p c)) =
              [(Account_Show, Some account), (webapp_show p, Some app),
               (workspace_create p, o1), (workspace_show p, Some la),
               (app_insights_create p ws, o2), (app_insights_show p, Some ai),
               (appsettings_set p cs, o3),
               (action_group_create p, o4), (action_group_show p, Some g)]
          \<and> map_of la ''id'' = Some ws \<and> map_of ai ''connectionString'' = Some cs
          \<and> (e = PropertyNotFoundStrict ''appServicePlanId'' \<or> e = PropertyNotFoundStrict ''id'')))"
proof -
  let ?w = "\<lparr>cloud = c, transcript = [], console = []\<rparr>"
  obtain res w' where run: "try_block api p ?w = (res, w')"
    by (cases "try_block api p ?w")
  from assms run obtain e where res: "res = Inl e"
    by (cases res) (simp_all add: monitoring_setup_def)
  from run res have fin:
    "final (monitoring_setup api p c) = after_status (''Error: '' @ Message e) ''Error'' w'"
    by (simp add: monitoring_setup_def after_status_def)
  from try_block_spec [where api = api and p = p and w = "?w"] run res show ?thesis
    unfolding fin by (intro exI [of _ e]) (simp add: after_status_console error_line_def)
qed

lemmas script_defs = monitoring_setup_def try_block_def verify_preconditions_def create_workspace_def
    create_app_insights_def configure_app_service_def create_action_group_def
    create_alert_rules_def enable_diagnostics_def

lemmas command_defs = webapp_show_def workspace_create_def workspace_show_def
  app_insights_create_def app_insights_show_def appsettings_set_def action_group_create_def
  action_group_show_def diagnostic_settings_create_def

lemmas demo_defs = request_xy_def param_def fresh_def store_def logAnalyticsName_def
  appInsightsName_def actionGroupName_def cpu_rule_def memory_rule_def http5xx_rule_def
  response_time_rule_def

section \<open>The script on the demo cloud\<close>

text \<open>
  The request of the specification's end-to-end scenario (resource group \<open>rg-x\<close>,
  application \<open>app-y\<close>, address \<open>a@b.com\<close>, default location) on the demo cloud where
  the application exists: the run completes, with this transcript.
\<close>

lemma demo_run:
  "exit_code (monitoring_setup demo_api request_xy fresh) = 0"
  "transcript (final (monitoring_setup demo_api request_xy fresh)) =
     [(Account_Show, Some [(''name'', ''Demo Subscription'')]),
      (webapp_show request_xy, Some [(''id'', ''/sites/app-y''), (''appServicePlanId'', ''/plans/asp-x'')]),
      (workspace_create request_xy, None),
      (workspace_show request_xy, Some [(''id'', ''/workspaces/log-app-y''), (''location'', ''eastus'')]),
      (app_insights_create request_xy ''/workspaces/log-app-y'', None),
      (app_insights_show request_xy,
         Some [(''id'', ''/components/appi-app-y''),
               (''connectionString'', ''InstrumentationKey=appi-app-y''),
               (''workspace'', ''/workspaces/log-app-y'')]),
      (appsettings_set request_xy ''InstrumentationKey=appi-app-y'', None),
      (action_group_create request_xy, None),
      (action_group_show request_xy,
         Some [(''id'', ''/actionGroups/ag-app-y-alerts''), (''receiver'', ''a@b.com'')]),
      (Metrics_Alert_Create (cpu_rule request_xy ''/plans/asp-x'' ''/actionGroups/ag-app-y-alerts''), None),
      (Metrics_Alert_Create (memory_rule request_xy ''/plans/asp-x'' ''/actionGroups/ag-app-y-alerts''), None),
      (Metrics_Alert_Create (http5xx_rule request_xy ''/sites/app-y'' ''/actionGroups/ag-app-y-alerts''), None),
      (Metrics_Alert_Create (response_time_rule request_xy ''/sites/app-y'' ''/actionGroups/ag-app-y-alerts''), None),
      (diagnostic_settings_create request_xy ''/sites/app-y'' ''/workspaces/log-app-y'', None)]"
  unfolding script_defs
  by (simp_all add: run_simps and_then_assoc summary_def Write_Lines_apply command_defs demo_defs
      del: Write_Lines.simps)


section \<open>Naming\<close>

text \<open>
  Claim C6. The three derived names are a function of the application name alone, so equal
  inputs give equal names; the function has no error path, being defined on every string.
  Distinct application names give distinct triples, and more: no name derived from one
  application, in any role, equals a name derived from another.
\<close>

theorem deriveNames_no_collisions:
  "(a = b \<longrightarrow> deriveNames a = deriveNames b)
   \<and> (a \<noteq> b \<longrightarrow>
        deriveNames a \<noteq> deriveNames b
        \<and> {logAnalyticsName a, appInsightsName a, actionGroupName a}
            \<inter> {logAnalyticsName b, appInsightsName b, actionGroupName b} = {})"
  by (simp add: deriveNames_def logAnalyticsName_def appInsightsName_def actionGroupName_def)

theorem deriveNames_no_collisions_witness:
  "deriveNames ''app-y'' = (''log-app-y'', ''appi-app-y'', ''ag-app-y-alerts'')
   \<and> deriveNames ''app-y'' \<noteq> deriveNames ''app-z''
   \<and> {logAnalyticsName ''app-y'', appInsightsName ''app-y'', actionGroupName ''app-y''}
       \<inter> {logAnalyticsName ''app-z'', appInsightsName ''app-z'', actionGroupName ''app-z''} = {}"
proof -
  have "''app-y'' \<noteq> ''app-z''" by simp
  with deriveNames_no_collisions [of "''app-y''" "''app-z''"]
  show ?thesis
    by (simp add: deriveNames_def logAnalyticsName_def appInsightsName_def actionGroupName_def)
qed

section \<open>The request handler\<close>

text \<open>The page is an HTML document, whatever the clock and the environment.\<close>

lemma join_lines_append: "join_lines (xs @ ys) = join_lines xs @ join_lines ys"
  by (simp add: join_lines_def)

lemma page_is_html_document: "is_html_document (page env)"
proof -
  define front where "front = join_lines (take 19 (page_lines env))"
  have tail: "drop 19 (page_lines env) = [''      </html>'', ''    '']"
    by (simp add: page_lines_def)
  have "page env = join_lines (take 19 (page_lines env) @ drop 19 (page_lines env))"
    by (simp add: page_def)
  then have split: "page env = front @ join_lines [''      </html>'', ''    '']"
    unfolding join_lines_append tail front_def .
  have closes: "begins (rev ''</html>'') (dropWhile blank (rev (page env)))"
    unfolding split by (simp add: join_lines_def blank_def)
  have opens: "begins ''<!DOCTYPE html>'' (dropWhile blank (page env))"
    by (simp add: page_def page_lines_def join_lines_def blank_def)
  from opens closes show ?thesis
    by (simp add: is_html_document_def)
qed

text \<open>
  Claim C10. The handler answers every request, and the URL alone decides the status. A
  request for \<open>/health\<close> gets 200 and, as JSON, the object with \<open>status\<close> =
  \<open>healthy\<close> and the timestamp. A request for \<open>/\<close> gets 200 and, as \<open>text/html\<close>,
  the page: an HTML document, from its document type declaration to its closing tag, with
  the title and the lines of the server time, the Node version and the environment. Any
  other URL gets 404 and, as JSON, the object with the one field \<open>error\<close> =
  \<open>Not Found\<close>. Two requests with the same URL get the same status, whatever the
  method, the clock or the environment.
\<close>

theorem handler_routes:
  "(url req = ''/health'' \<longrightarrow>
      statusCode (handler env req) = 200
      \<and> headers (handler env req) = [(''Content-Type'', ''application/json'')]
      \<and> sent (handler env req) = Some (JSON [(''status'', ''healthy''), (''timestamp'', timestamp env)])
      \<and> json_field (handler env req) ''status'' = Some ''healthy'')
   \<and> (url req = ''/'' \<longrightarrow>
      statusCode (handler env req) = 200
      \<and> headers (handler env req) = [(''Content-Type'', ''text/html'')]
      \<and> sent (handler env req) = Some (Text (page env))
      \<and> is_html (handler env req)
      \<and> ''          <title>DevOps Test App</title>'' \<in> set (page_lines env)
      \<and> ''            <p><strong>Server Time:</strong> '' @ timestamp env @ ''</p>''
            \<in> set (page_lines env)
      \<and> ''            <p><strong>Node Version:</strong> '' @ version env @ ''</p>''
            \<in> set (page_lines env)
      \<and> ''            <p><strong>Environment:</strong> '' @ environment_name env @ ''</p>''
            \<in> set (page_lines env))
   \<and> (url req \<noteq> ''/health'' \<and> url req \<noteq> ''/'' \<longrightarrow>
      statusCode (handler env req) = 404
      \<and> headers (handler env req) = [(''Content-Type'', ''application/json'')]
      \<and> sent (handler env req) = Some (JSON [(''error'', ''Not Found'')]))
   \<and> (url req' = url req \<longrightarrow> statusCode (handler env' req') = statusCode (handler env req))"
proof -
  have lines: "''          <title>DevOps Test App</title>'' \<in> set (page_lines env)"
    "''            <p><strong>Server Time:</strong> '' @ timestamp env @ ''</p>''
            \<in> set (page_lines env)"
    "''            <p><strong>Node Version:</strong> '' @ version env @ ''</p>''
            \<in> set (page_lines env)"
    "''            <p><strong>Environment:</strong> '' @ environment_name env @ ''</p>''
            \<in> set (page_lines env)"
    by (simp_all add: page_lines_def)
  show ?thesis
    using page_is_html_document [of env] lines
    by (simp add: handler_def end_response_def writeHead_def fresh_response_def is_html_def
        json_field_def)
qed

theorem handler_routes_witness:
  "statusCode (handler \<lparr>timestamp = ''2026-01-01T00:00:00.000Z'', version = ''v22.0.0'', NODE_ENV = None\<rparr>
      \<lparr>http_method = ''GET'', url = ''/health''\<rparr>) = 200
   \<and> json_field (handler \<lparr>timestamp = ''2026-01-01T00:00:00.000Z'', version = ''v22.0.0'', NODE_ENV = None\<rparr>
      \<lparr>http_method = ''GET'', url = ''/health''\<rparr>) ''status'' = Some ''healthy''
   \<and> statusCode (handler \<lparr>timestamp = ''2026-01-01T00:00:00.000Z'', version = ''v22.0.0'', NODE_ENV = None\<rparr>
      \<lparr>http_method = ''GET'', url = ''/''\<rparr>) = 200
   \<and> is_html (handler \<lparr>timestamp = ''2026-01-01T00:00:00.000Z'', version = ''v22.0.0'', NODE_ENV = None\<rparr>
      \<lparr>http_method = ''GET'', url = ''/''\<rparr>)
   \<and> ''            <p><strong>Environment:</strong> development</p>''
        \<in> set (page_lines \<lparr>timestamp = ''2026-01-01T00:00:00.000Z'', version = ''v22.0.0'', NODE_ENV = None\<rparr>)
   \<and> statusCode (handler \<lparr>timestamp = ''2026-01-01T00:00:00.000Z'', version = ''v22.0.0'', NODE_ENV = None\<rparr>
      \<lparr>http_method = ''GET'', url = ''/health?verbose=1''\<rparr>) = 404
   \<and> statusCode (handler \<lparr>timestamp = ''2026-01-01T00:00:00.000Z'', version = ''v22.0.0'', NODE_ENV = None\<rparr>
      \<lparr>http_method = ''POST'', url = ''/health''\<rparr>) = 200"
  using
    handler_routes [of "\<lparr>http_method = ''GET'', url = ''/health''\<rparr>"
        "\<lparr>timestamp = ''2026-01-01T00:00:00.000Z'', version = ''v22.0.0'', NODE_ENV = None\<rparr>"
        "\<lparr>http_method = ''POST'', url = ''/health''\<rparr>"
        "\<lparr>timestamp = ''2026-01-01T00:00:00.000Z'', version = ''v22.0.0'', NODE_ENV = None\<rparr>"]
    handler_routes [of "\<lparr>http_method = ''GET'', url = ''/''\<rparr>"
        "\<lparr>timestamp = ''2026-01-01T00:00:00.000Z'', version = ''v22.0.0'', NODE_ENV = None\<rparr>"
        "\<lparr>http_method = ''GET'', url = ''/''\<rparr>"
        "\<lparr>timestamp = ''2026-01-01T00:00:00.000Z'', version = ''v22.0.0'', NODE_ENV = None\<rparr>"]
    handler_routes [of "\<lparr>http_method = ''GET'', url = ''/health?verbose=1''\<rparr>"
        "\<lparr>timestamp = ''2026-01-01T00:00:00.000Z'', version = ''v22.0.0'', NODE_ENV = None\<rparr>"
        "\<lparr>http_method = ''GET'', url = ''/health?verbose=1''\<rparr>"
        "\<lparr>timestamp = ''2026-01-01T00:00:00.000Z'', version = ''v22.0.0'', NODE_ENV = None\<rparr>"]
  by (simp add: environment_name_def)

section \<open>Alert rules\<close>

text \<open>
  Claim C1. In every run that completes, the application descriptor returned by
  \<open>az webapp show\<close> has an \<open>id\<close> and an \<open>appServicePlanId\<close>; the CPU and memory rules are
  created with the plan identifier as scope and the HTTP 5xx and response-time rules with
  the application identifier, in this order. The two identifiers name different
  resources; where they differ, no rule of the first pair has the application as scope
  and no rule of the second pair has the plan.
\<close>

theorem alert_scopes:
  assumes "exit_code (monitoring_setup api p c) = 0"
  shows "\<exists>app wid plan.
     (webapp_show p, Some app) \<in> set (transcript (final (monitoring_setup api p c)))
     \<and> map_of app ''id'' = Some wid
     \<and> map_of app ''appServicePlanId'' = Some plan
     \<and> map (\<lambda>r. (condition r, scopes r)) (alert_rules (calls (monitoring_setup api p c))) =
          [(''avg CpuPercentage > 80'', plan), (''avg MemoryPercentage > 85'', plan),
           (''total Http5xx > 10'', wid), (''avg HttpResponseTime > 5'', wid)]
     \<and> (plan \<noteq> wid \<longrightarrow>
          map (\<lambda>r. scopes r = wid) (alert_rules (calls (monitoring_setup api p c))) =
            [False, False, True, True]
          \<and> map (\<lambda>r. scopes r = plan) (alert_rules (calls (monitoring_setup api p c))) =
            [True, True, False, False])"
proof -
  from run_complete [OF assms] obtain account app la ai g wid plan ws cs agid
      o1 o2 o3 o4 o5 o6 o7 o8 o9 where
    ids: "map_of app ''id'' = Some wid" "map_of app ''appServicePlanId'' = Some plan" and
    T: "transcript (final (monitoring_setup api p c)) =
              [(Account_Show, Some account), (webapp_show p, Some app),
               (workspace_create p, o1), (workspace_show p, Some la),
               (app_insights_create p ws, o2), (app_insights_show p, Some ai),
               (appsettings_set p cs, o3),
               (action_group_create p, o4), (action_group_show p, Some g),
               (Metrics_Alert_Create (cpu_rule p plan agid), o5),
               (Metrics_Alert_Create (memory_rule p plan agid), o6),
               (Metrics_Alert_Create (http5xx_rule p wid agid), o7),
               (Metrics_Alert_Create (response_time_rule p wid agid), o8),
               (diagnostic_settings_create p wid ws, o9)]"
    by blast
  have rules: "alert_rules (calls (monitoring_setup api p c)) =
      [cpu_rule p plan agid, memory_rule p plan agid,
       http5xx_rule p wid agid, response_time_rule p wid agid]"
    by (simp add: calls_def T command_defs)
  have "(webapp_show p, Some app) \<in> set (transcript (final (monitoring_setup api p c)))"
    by (simp add: T)
  moreover have "map (\<lambda>r. (condition r, scopes r)) (alert_rules (calls (monitoring_setup api p c))) =
          [(''avg CpuPercentage > 80'', plan), (''avg MemoryPercentage > 85'', plan),
           (''total Http5xx > 10'', wid), (''avg HttpResponseTime > 5'', wid)]"
    by (simp add: rules cpu_rule_def memory_rule_def http5xx_rule_def response_time_rule_def)
  moreover have "plan \<noteq> wid \<longrightarrow>
          map (\<lambda>r. scopes r = wid) (alert_rules (calls (monitoring_setup api p c))) =
            [False, False, True, True]
          \<and> map (\<lambda>r. scopes r = plan) (alert_rules (calls (monitoring_setup api p c))) =
            [True, True, False, False]"
    by (auto simp add: rules cpu_rule_def memory_rule_def http5xx_rule_def response_time_rule_def)
  ultimately show ?thesis using ids
    by - (rule exI [of _ app], rule exI [of _ wid], rule exI [of _ plan], (intro conjI; assumption))
qed

theorem alert_scopes_witness:
  "exit_code (monitoring_setup demo_api request_xy fresh) = 0
   \<and> map (\<lambda>r. (condition r, scopes r))
         (alert_rules (calls (monitoring_setup demo_api request_xy fresh))) =
       [(''avg CpuPercentage > 80'', ''/plans/asp-x''), (''avg MemoryPercentage > 85'', ''/plans/asp-x''),
        (''total Http5xx > 10'', ''/sites/app-y''), (''avg HttpResponseTime > 5'', ''/sites/app-y'')]
   \<and> map (\<lambda>r. scopes r = ''/sites/app-y'')
         (alert_rules (calls (monitoring_setup demo_api request_xy fresh))) =
       [False, False, True, True]"
  using alert_scopes [OF demo_run(1)]
proof (elim exE conjE)
  fix app wid plan
  assume app: "(webapp_show request_xy, Some app)
            \<in> set (transcript (final (monitoring_setup demo_api request_xy fresh)))"
    and ids: "map_of app ''id'' = Some wid" "map_of app ''appServicePlanId'' = Some plan"
    and scopes: "map (\<lambda>r. (condition r, scopes r))
         (alert_rules (calls (monitoring_setup demo_api request_xy fresh))) =
          [(''avg CpuPercentage > 80'', plan), (''avg MemoryPercentage > 85'', plan),
           (''total Http5xx > 10'', wid), (''avg HttpResponseTime > 5'', wid)]"
    and apart: "plan \<noteq> wid \<longrightarrow>
          map (\<lambda>r. scopes r = wid) (alert_rules (calls (monitoring_setup demo_api request_xy fresh))) =
            [False, False, True, True]
          \<and> map (\<lambda>r. scopes r = plan) (alert_rules (calls (monitoring_setup demo_api request_xy fresh))) =
            [True, True, False, False]"
  from app have "app = [(''id'', ''/sites/app-y''), (''appServicePlanId'', ''/plans/asp-x'')]"
    by (simp add: demo_run(2) command_defs)
  with ids have "wid = ''/sites/app-y''" "plan = ''/plans/asp-x''"
    by simp_all
  with scopes apart demo_run(1) show ?thesis
    by simp
qed


text \<open>The four rules of a complete run, and what a failed run has issued.\<close>

lemma complete_alert_rules:
  assumes "exit_code (monitoring_setup api p c) = 0"
  shows "\<exists>app g wid plan agid.
     (webapp_show p, Some app) \<in> set (transcript (final (monitoring_setup api p c)))
     \<and> (action_group_show p, Some g) \<in> set (transcript (final (monitoring_setup api p c)))
     \<and> map_of app ''id'' = Some wid \<and> map_of app ''appServicePlanId'' = Some plan
     \<and> map_of g ''id'' = Some agid
     \<and> alert_rules (calls (monitoring_setup api p c)) =
          [cpu_rule p plan agid, memory_rule p plan agid,
           http5xx_rule p wid agid, response_time_rule p wid agid]"
  using run_complete [OF assms]
proof (elim exE conjE)
  fix account app la ai g wid plan ws cs agid o1 o2 o3 o4 o5 o6 o7 o8 o9
  assume ids: "map_of app ''id'' = Some wid" "map_of app ''appServicePlanId'' = Some plan"
      "map_of g ''id'' = Some agid"
    and T: "transcript (final (monitoring_setup api p c)) =
              [(Account_Show, Some account), (webapp_show p, Some app),
               (workspace_create p, o1), (workspace_show p, Some la),
               (app_insights_create p ws, o2), (app_insights_show p, Some ai),
               (appsettings_set p cs, o3),
               (action_group_create p, o4), (action_group_show p, Some g),
               (Metrics_Alert_Create (cpu_rule p plan agid), o5),
               (Metrics_Alert_Create (memory_rule p plan agid), o6),
               (Metrics_Alert_Create (http5xx_rule p wid agid), o7),
               (Metrics_Alert_Create (response_time_rule p wid agid), o8),
               (diagnostic_settings_create p wid ws, o9)]"
  have "alert_rules (calls (monitoring_setup api p c)) =
      [cpu_rule p plan agid, memory_rule p plan agid,
       http5xx_rule p wid agid, response_time_rule p wid agid]"
    by (simp add: calls_def T command_defs)
  moreover have "(webapp_show p, Some app) \<in> set (transcript (final (monitoring_setup api p c)))"
    "(action_group_show p, Some g) \<in> set (transcript (final (monitoring_setup api p c)))"
    by (simp_all add: T)
  ultimately show ?thesis using ids
    by - (rule exI [of _ app], rule exI [of _ g], rule exI [of _ wid], rule exI [of _ plan],
        rule exI [of _ agid], (intro conjI; assumption))
qed

lemma failed_calls:
  assumes "exit_code (monitoring_setup api p c) \<noteq> 0"
  shows "alert_rules (calls (monitoring_setup api p c)) = []"
    and "filter is_diagnostic_settings (calls (monitoring_setup api p c)) = []"
    and "calls (monitoring_setup api p c) \<noteq> []"
    and "hd (calls (monitoring_setup api p c)) = Account_Show"
  using run_failed [OF assms]
  by (auto simp add: calls_def command_defs)

text \<open>
  Claim C2. Every run that completes creates exactly four alert rules, in this order:
  average \<open>CpuPercentage\<close> above 80 with severity 2, average \<open>MemoryPercentage\<close> above 85
  with severity 2, total \<open>Http5xx\<close> above 10 with severity 1, and average
  \<open>HttpResponseTime\<close> above 5 with severity 3. Each has window \<open>5m\<close> and frequency \<open>1m\<close>,
  that is 5 minutes and 1 minute, and each names as its action the \<open>id\<close> of the action
  group that \<open>az monitor action-group show\<close> returned in this run.
\<close>

theorem alert_table:
  assumes "exit_code (monitoring_setup api p c) = 0"
  shows "\<exists>g agid.
     (action_group_show p, Some g) \<in> set (transcript (final (monitoring_setup api p c)))
     \<and> map_of g ''id'' = Some agid
     \<and> map (\<lambda>r. (condition r, window_size r, evaluation_frequency r, severity r, action r))
          (alert_rules (calls (monitoring_setup api p c))) =
          [(''avg CpuPercentage > 80'', ''5m'', ''1m'', 2, agid),
           (''avg MemoryPercentage > 85'', ''5m'', ''1m'', 2, agid),
           (''total Http5xx > 10'', ''5m'', ''1m'', 1, agid),
           (''avg HttpResponseTime > 5'', ''5m'', ''1m'', 3, agid)]
     \<and> map (\<lambda>r. (duration_minutes (window_size r), duration_minutes (evaluation_frequency r)))
          (alert_rules (calls (monitoring_setup api p c))) =
          [(Some 5, Some 1), (Some 5, Some 1), (Some 5, Some 1), (Some 5, Some 1)]"
  using complete_alert_rules [OF assms]
proof (elim exE conjE)
  fix app g wid plan agid
  assume g: "(action_group_show p, Some g) \<in> set (transcript (final (monitoring_setup api p c)))"
    and agid: "map_of g ''id'' = Some agid"
    and rules: "alert_rules (calls (monitoring_setup api p c)) =
          [cpu_rule p plan agid, memory_rule p plan agid,
           http5xx_rule p wid agid, response_time_rule p wid agid]"
  have "map (\<lambda>r. (condition r, window_size r, evaluation_frequency r, severity r, action r))
          (alert_rules (calls (monitoring_setup api p c))) =
          [(''avg CpuPercentage > 80'', ''5m'', ''1m'', 2, agid),
           (''avg MemoryPercentage > 85'', ''5m'', ''1m'', 2, agid),
           (''total Http5xx > 10'', ''5m'', ''1m'', 1, agid),
           (''avg HttpResponseTime > 5'', ''5m'', ''1m'', 3, agid)]"
    by (simp add: rules cpu_rule_def memory_rule_def http5xx_rule_def response_time_rule_def)
  moreover have "map (\<lambda>r. (duration_minutes (window_size r), duration_minutes (evaluation_frequency r)))
          (alert_rules (calls (monitoring_setup api p c))) =
          [(Some 5, Some 1), (Some 5, Some 1), (Some 5, Some 1), (Some 5, Some 1)]"
    by (simp add: rules cpu_rule_def memory_rule_def http5xx_rule_def response_time_rule_def
        duration_minutes_def digit_def)
  ultimately show ?thesis using g agid
    by - (rule exI [of _ g], rule exI [of _ agid], (intro conjI; assumption))
qed

theorem alert_table_witness:
  "exit_code (monitoring_setup demo_api request_xy fresh) = 0
   \<and> map (\<lambda>r. (condition r, window_size r, evaluation_frequency r, severity r, action r))
          (alert_rules (calls (monitoring_setup demo_api request_xy fresh))) =
          [(''avg CpuPercentage > 80'', ''5m'', ''1m'', 2, ''/actionGroups/ag-app-y-alerts''),
           (''avg MemoryPercentage > 85'', ''5m'', ''1m'', 2, ''/actionGroups/ag-app-y-alerts''),
           (''total Http5xx > 10'', ''5m'', ''1m'', 1, ''/actionGroups/ag-app-y-alerts''),
           (''avg HttpResponseTime > 5'', ''5m'', ''1m'', 3, ''/actionGroups/ag-app-y-alerts'')]"
  using alert_table [OF demo_run(1)]
proof (elim exE conjE)
  fix g agid
  assume g: "(action_group_show request_xy, Some g)
        \<in> set (transcript (final (monitoring_setup demo_api request_xy fresh)))"
    and agid: "map_of g ''id'' = Some agid"
    and table: "map (\<lambda>r. (condition r, window_size r, evaluation_frequency r, severity r, action r))
          (alert_rules (calls (monitoring_setup demo_api request_xy fresh))) =
          [(''avg CpuPercentage > 80'', ''5m'', ''1m'', 2, agid),
           (''avg MemoryPercentage > 85'', ''5m'', ''1m'', 2, agid),
           (''total Http5xx > 10'', ''5m'', ''1m'', 1, agid),
           (''avg HttpResponseTime > 5'', ''5m'', ''1m'', 3, agid)]"
  from g have "g = [(''id'', ''/actionGroups/ag-app-y-alerts''), (''receiver'', ''a@b.com'')]"
    by (simp add: demo_run(2) command_defs)
  with agid have "agid = ''/actionGroups/ag-app-y-alerts''"
    by simp
  with table demo_run(1) show ?thesis
    by simp
qed

text \<open>
  Claim C8. Every alert rule that any run of the script sends to the CLI, whether the run
  completes or not, has an evaluation window of 5 minutes and an evaluation frequency of
  1 minute, so its window is at least its frequency.
\<close>

theorem window_covers_frequency:
  "\<forall>r \<in> set (alert_rules (calls (monitoring_setup api p c))).
     \<exists>w f. duration_minutes (window_size r) = Some w
       \<and> duration_minutes (evaluation_frequency r) = Some f
       \<and> f \<le> w \<and> w = 5 \<and> f = 1"
proof (cases "exit_code (monitoring_setup api p c) = 0")
  case True
  from complete_alert_rules [OF True] show ?thesis
    by (auto simp add: cpu_rule_def memory_rule_def http5xx_rule_def response_time_rule_def
        duration_minutes_def digit_def)
next
  case False
  from failed_calls(1) [OF False] show ?thesis
    by simp
qed

theorem window_covers_frequency_witness:
  "cpu_rule request_xy ''/plans/asp-x'' ''/actionGroups/ag-app-y-alerts''
     \<in> set (alert_rules (calls (monitoring_setup demo_api request_xy fresh)))
   \<and> duration_minutes (window_size (cpu_rule request_xy ''/plans/asp-x'' ''/actionGroups/ag-app-y-alerts'')) = Some 5
   \<and> duration_minutes (evaluation_frequency (cpu_rule request_xy ''/plans/asp-x'' ''/actionGroups/ag-app-y-alerts'')) = Some 1"
proof -
  have member: "cpu_rule request_xy ''/plans/asp-x'' ''/actionGroups/ag-app-y-alerts''
     \<in> set (alert_rules (calls (monitoring_setup demo_api request_xy fresh)))"
    by (simp add: calls_def demo_run(2) command_defs)
  with window_covers_frequency [of demo_api request_xy fresh] show ?thesis
    by auto
qed

section \<open>Diagnostic settings\<close>



section \<open>Failures\<close>

text \<open>
  Claim C3. When \<open>az account show\<close> prints nothing (the caller is not signed in) or
  \<open>az webapp show\<close> prints nothing (the application is not in the resource group), the
  script exits with code 1, and the only commands it has issued are these two queries: no
  command that creates or configures a resource has run, and the cloud is in the state
  the queries left.
\<close>

theorem precondition_failure:
  assumes "fst (api c Account_Show) = None
    \<or> fst (api (snd (api c Account_Show)) (webapp_show p)) = None"
  shows "exit_code (monitoring_setup api p c) = 1
    \<and> set (calls (monitoring_setup api p c)) \<subseteq> {Account_Show, webapp_show p}
    \<and> (cloud (final (monitoring_setup api p c)) = snd (api c Account_Show)
        \<or> cloud (final (monitoring_setup api p c))
             = snd (api (snd (api c Account_Show)) (webapp_show p)))"
proof (cases "fst (api c Account_Show)")
  case None
  then show ?thesis
    unfolding monitoring_setup_def try_block_def verify_preconditions_def calls_def
    by (simp add: run_simps and_then_assoc)
next
  case (Some account)
  show ?thesis
  proof (cases "map_of account ''name''")
    case None
    with Some show ?thesis
      unfolding monitoring_setup_def try_block_def verify_preconditions_def calls_def
      by (simp add: run_simps and_then_assoc)
  next
    case name: (Some subscription)
    from assms Some have "fst (api (snd (api c Account_Show)) (webapp_show p)) = None"
      by simp
    with Some name show ?thesis
      unfolding monitoring_setup_def try_block_def verify_preconditions_def calls_def
      by (simp add: run_simps and_then_assoc)
  qed
qed

theorem precondition_failure_witness:
  "exit_code (monitoring_setup demo_api request_xy (fresh\<lparr>signed_in := False\<rparr>)) = 1
   \<and> set (calls (monitoring_setup demo_api request_xy (fresh\<lparr>signed_in := False\<rparr>)))
        \<subseteq> {Account_Show, webapp_show request_xy}
   \<and> exit_code (monitoring_setup demo_api request_xy (fresh\<lparr>resources := []\<rparr>)) = 1
   \<and> set (calls (monitoring_setup demo_api request_xy (fresh\<lparr>resources := []\<rparr>)))
        \<subseteq> {Account_Show, webapp_show request_xy}"
proof -
  have "fst (demo_api (fresh\<lparr>signed_in := False\<rparr>) Account_Show) = None"
    by (simp add: fresh_def)
  moreover have "fst (demo_api (snd (demo_api (fresh\<lparr>resources := []\<rparr>) Account_Show))
      (webapp_show request_xy)) = None"
    by (simp add: fresh_def webapp_show_def)
  ultimately show ?thesis
    using precondition_failure [of demo_api "fresh\<lparr>signed_in := False\<rparr>" request_xy]
      precondition_failure [of demo_api "fresh\<lparr>resources := []\<rparr>" request_xy]
    by simp
qed





section \<open>The console of a run that fails at the action group\<close>



section \<open>The notification address\<close>

text \<open>
  The first command of every run, and the address in a complete run; then the scenario's
  request with an address that has no \<open>@\<close>, on the demo cloud.
\<close>

lemma first_call_and_address:
  "calls (monitoring_setup api p c) \<noteq> []
   \<and> hd (calls (monitoring_setup api p c)) = Account_Show
   \<and> (exit_code (monitoring_setup api p c) = 0 \<longrightarrow>
        length (calls (monitoring_setup api p c)) = 14
        \<and> calls (monitoring_setup api p c) ! 7 =
            Action_Group_Create (ResourceGroupName p) (actionGroupName (WebAppName p)) ''AppAlerts''
              [''email'', ''AdminEmail'', AlertEmailAddress p])"
proof (cases "exit_code (monitoring_setup api p c) = 0")
  case True
  from run_complete [OF True] show ?thesis
    by (auto simp add: calls_def action_group_create_def)
next
  case False
  with failed_calls(3,4) [OF False] show ?thesis
    by simp
qed

lemma demo_unchecked_address:
  "exit_code (monitoring_setup demo_api (request_xy\<lparr>AlertEmailAddress := ''not-an-address''\<rparr>) fresh) = 0"
  "calls (monitoring_setup demo_api (request_xy\<lparr>AlertEmailAddress := ''not-an-address''\<rparr>) fresh) ! 7
     = Action_Group_Create ''rg-x'' ''ag-app-y-alerts'' ''AppAlerts''
         [''email'', ''AdminEmail'', ''not-an-address'']"
  "length (calls (monitoring_setup demo_api (request_xy\<lparr>AlertEmailAddress := ''not-an-address''\<rparr>) fresh)) = 14"
  unfolding script_defs calls_def
  by (simp_all add: run_simps and_then_assoc summary_def Write_Lines_apply command_defs demo_defs
      del: Write_Lines.simps)

lemma bound_unchecked_address:
  "param ''rg-x'' ''app-y'' None ''not-an-address''
     = Inr (request_xy\<lparr>AlertEmailAddress := ''not-an-address''\<rparr>)"
  by (simp add: param_def request_xy_def)

text \<open>
  Claim C9, as stated, fails. The text \<open>not-an-address\<close> has no \<open>@\<close> and so is no
  address under any syntax; given it, binding succeeds and the script completes with exit
  code 0 after fourteen commands, the eighth of which hands the text to
  \<open>az monitor action-group create\<close>.
\<close>

theorem unchecked_address_counterexample:
  "CHR ''@'' \<notin> set ''not-an-address''
   \<and> invoke demo_api ''rg-x'' ''app-y'' None ''not-an-address'' fresh
       = Inr (monitoring_setup demo_api (request_xy\<lparr>AlertEmailAddress := ''not-an-address''\<rparr>) fresh)
   \<and> exit_code (monitoring_setup demo_api (request_xy\<lparr>AlertEmailAddress := ''not-an-address''\<rparr>) fresh) = 0
   \<and> length (calls (monitoring_setup demo_api (request_xy\<lparr>AlertEmailAddress := ''not-an-address''\<rparr>) fresh)) = 14
   \<and> calls (monitoring_setup demo_api (request_xy\<lparr>AlertEmailAddress := ''not-an-address''\<rparr>) fresh) ! 7
     = Action_Group_Create ''rg-x'' ''ag-app-y-alerts'' ''AppAlerts''
         [''email'', ''AdminEmail'', ''not-an-address'']"
  by (simp add: demo_unchecked_address invoke_def bound_unchecked_address)

text \<open>
  Claim C9, amended. The one check on the address is made when the parameters are bound:
  an empty address is refused there, before the body of the script and any remote call.
  Every other address is accepted as it is, well-formed or not (the other two mandatory
  parameters being non-empty): the run starts with the remote call \<open>az account show\<close>,
  and a run that completes has issued fourteen commands, the eighth being
  \<open>az monitor action-group create\<close> with the address as it was given, after
  \<open>email AdminEmail\<close>.
\<close>

theorem address_not_validated:
  "(email = [] \<longrightarrow> invoke api rg app loc email c = Inl ParameterBindingValidationException)
   \<and> (rg \<noteq> [] \<and> app \<noteq> [] \<and> email \<noteq> [] \<longrightarrow>
        (\<exists>p. param rg app loc email = Inr p
           \<and> AlertEmailAddress p = email
           \<and> invoke api rg app loc email c = Inr (monitoring_setup api p c)
           \<and> calls (monitoring_setup api p c) \<noteq> []
           \<and> hd (calls (monitoring_setup api p c)) = Account_Show
           \<and> (exit_code (monitoring_setup api p c) = 0 \<longrightarrow>
                length (calls (monitoring_setup api p c)) = 14
                \<and> calls (monitoring_setup api p c) ! 7 =
                    Action_Group_Create rg (actionGroupName app) ''AppAlerts''
                      [''email'', ''AdminEmail'', email])))"
proof (intro conjI impI)
  assume "email = []"
  then show "invoke api rg app loc email c = Inl ParameterBindingValidationException"
    by (simp add: invoke_def param_def)
next
  assume given: "rg \<noteq> [] \<and> app \<noteq> [] \<and> email \<noteq> []"
  define p where "p = \<lparr>ResourceGroupName = rg, WebAppName = app,
      Location = (case loc of None \<Rightarrow> ''eastus'' | Some l \<Rightarrow> l), AlertEmailAddress = email\<rparr>"
  from given have bound: "param rg app loc email = Inr p"
    by (simp add: param_def p_def)
  have fields: "AlertEmailAddress p = email" "ResourceGroupName p = rg" "WebAppName p = app"
    by (simp_all add: p_def)
  from bound have run: "invoke api rg app loc email c = Inr (monitoring_setup api p c)"
    by (simp add: invoke_def)
  from first_call_and_address [of api p c] bound run fields
  show "\<exists>p. param rg app loc email = Inr p
           \<and> AlertEmailAddress p = email
           \<and> invoke api rg app loc email c = Inr (monitoring_setup api p c)
           \<and> calls (monitoring_setup api p c) \<noteq> []
           \<and> hd (calls (monitoring_setup api p c)) = Account_Show
           \<and> (exit_code (monitoring_setup api p c) = 0 \<longrightarrow>
                length (calls (monitoring_setup api p c)) = 14
                \<and> calls (monitoring_setup api p c) ! 7 =
                    Action_Group_Create rg (actionGroupName app) ''AppAlerts''
                      [''email'', ''AdminEmail'', email])"
    by (intro exI [of _ p]) simp
qed

theorem address_not_validated_witness:
  "invoke demo_api ''rg-x'' ''app-y'' None [] fresh = Inl ParameterBindingValidationException
   \<and> invoke demo_api ''rg-x'' ''app-y'' None ''not-an-address'' fresh
       = Inr (monitoring_setup demo_api (request_xy\<lparr>AlertEmailAddress := ''not-an-address''\<rparr>) fresh)
   \<and> hd (calls (monitoring_setup demo_api (request_xy\<lparr>AlertEmailAddress := ''not-an-address''\<rparr>) fresh))
       = Account_Show
   \<and> calls (monitoring_setup demo_api (request_xy\<lparr>AlertEmailAddress := ''not-an-address''\<rparr>) fresh) ! 7
     = Action_Group_Create ''rg-x'' ''ag-app-y-alerts'' ''AppAlerts''
         [''email'', ''AdminEmail'', ''not-an-address'']"
  using address_not_validated [where email = "[]" and api = demo_api and rg = "''rg-x''"
        and app = "''app-y''" and loc = None and c = fresh]
    address_not_validated [where email = "''not-an-address''" and api = demo_api
        and rg = "''rg-x''" and app = "''app-y''" and loc = None and c = fresh]
    demo_unchecked_address(1)
  by (simp add: bound_unchecked_address actionGroupName_def)

section \<open>A failure at the action group\<close>




section \<open>Running the script twice\<close>















end
